theory Spec2Isabelle
  imports Main "HOL-Library.Sublist" "HOL-Library.Char_ord" "HOL-Library.List_Lexorder"
begin

section \<open>The generated plugin registrant\<close>

text \<open>
  The source is \<^verbatim>\<open>windows/flutter/generated_plugin_registrant.cc\<close>: one function,
  \<^verbatim>\<open>void RegisterPlugins(flutter::PluginRegistry* registry)\<close>, whose body is eight
  expression statements of the shape
  \<^verbatim>\<open>XRegisterWithRegistrar(registry->GetRegistrarForPlugin("X"));\<close>.
  Everything it calls is declared in headers outside the file: the registry class with
  its method \<^verbatim>\<open>GetRegistrarForPlugin\<close> and the eight plugin entry points. They are
  parameters of the model.
\<close>

subsection \<open>The external interface\<close>

text \<open>The eight entry points, named as the plugin headers declare them.\<close>

datatype entry_point =
    FileSelectorWindowsRegisterWithRegistrar
  | FlutterSecureStorageWindowsPluginRegisterWithRegistrar
  | FlutterTimezonePluginCApiRegisterWithRegistrar
  | MediaKitVideoPluginCApiRegisterWithRegistrar
  | PermissionHandlerWindowsPluginRegisterWithRegistrar
  | SimpleAnimationProgressBarPluginCApiRegisterWithRegistrar
  | UrlLauncherWindowsRegisterWithRegistrar
  | VolumeControllerPluginCApiRegisterWithRegistrar

text \<open>
  An external call runs in the state \<open>'w\<close> of the host process (everything outside
  this file: the registry object, the engine, the plugins' own globals). It hands back
  the state it leaves and either a value (\<open>Inr\<close>) or a failure \<open>'e\<close> it raised
  (\<open>Inl\<close>, a C++ exception leaving the call).
\<close>

type_synonym ('a, 'e, 'w) external = "'w \<Rightarrow> ('e + 'a) \<times> 'w"

text \<open>
  The registry class, as far as this file uses it: one virtual method that maps a
  plugin name to a registrar handle \<open>'h\<close>. The handle type is opaque here
  (\<^verbatim>\<open>FlutterDesktopPluginRegistrarRef\<close> in the host's headers).
\<close>

record ('h, 'e, 'w) PluginRegistry =
  GetRegistrarForPlugin :: "string \<Rightarrow> ('h, 'e, 'w) external"

text \<open>The plugin modules: what each entry point does with the handle it is given.\<close>

type_synonym ('h, 'e, 'w) plugin_modules = "entry_point \<Rightarrow> 'h \<Rightarrow> (unit, 'e, 'w) external"

subsection \<open>Statements of the function body\<close>

text \<open>
  What can end \<^verbatim>\<open>RegisterPlugins\<close> early: the dereference of a null
  \<^verbatim>\<open>registry\<close>, or a failure raised by an external call.
\<close>

datatype 'e failure = NullDereference | Thrown 'e

type_synonym ('a, 'e, 'w) comp = "'w \<Rightarrow> ('e failure + 'a) \<times> 'w"

text \<open>Calling an external function: its failure, if any, leaves through the caller.\<close>

definition extern :: "('a, 'e, 'w) external \<Rightarrow> ('a, 'e, 'w) comp" where
  "extern f w = (case f w of (Inl e, w') \<Rightarrow> (Inl (Thrown e), w') | (Inr a, w') \<Rightarrow> (Inr a, w'))"

text \<open>Evaluate \<open>m\<close>, then continue with its value; a failure skips the continuation.\<close>

definition bindC :: "('a, 'e, 'w) comp \<Rightarrow> ('a \<Rightarrow> ('b, 'e, 'w) comp) \<Rightarrow> ('b, 'e, 'w) comp" where
  "bindC m k w = (case m w of (Inl x, w') \<Rightarrow> (Inl x, w') | (Inr a, w') \<Rightarrow> k a w')"

text \<open>Statement sequencing \<^verbatim>\<open>s; t\<close>.\<close>

definition seqC :: "(unit, 'e, 'w) comp \<Rightarrow> ('b, 'e, 'w) comp \<Rightarrow> ('b, 'e, 'w) comp" where
  "seqC s t = bindC s (\<lambda>_. t)"

text \<open>
  The expression \<^verbatim>\<open>registry->GetRegistrarForPlugin(name)\<close>: the pointer is
  dereferenced with no test before it. C++ leaves the dereference of a null pointer
  undefined; the model makes it the failure \<open>NullDereference\<close>, which ends the run
  where it stands (\<open>None\<close> is the null pointer). Otherwise the method of the object
  pointed to is called.
\<close>

definition arrow_GetRegistrarForPlugin ::
  "('h, 'e, 'w) PluginRegistry option \<Rightarrow> string \<Rightarrow> ('h, 'e, 'w) comp" where
  "arrow_GetRegistrarForPlugin registry name =
     (case registry of
        None \<Rightarrow> (\<lambda>w. (Inl NullDereference, w))
      | Some r \<Rightarrow> extern (GetRegistrarForPlugin r name))"

text \<open>
  The expression statement \<^verbatim>\<open>f(arg);\<close>: the argument is evaluated first, then
  \<open>f\<close> is called on its value, and the (void) result is dropped.
\<close>

definition call_with :: "('h \<Rightarrow> (unit, 'e, 'w) external) \<Rightarrow> ('h, 'e, 'w) comp \<Rightarrow> (unit, 'e, 'w) comp" where
  "call_with f arg = bindC arg (\<lambda>h. extern (f h))"

subsection \<open>RegisterPlugins\<close>

text \<open>
  The body, statement by statement. The function is \<^verbatim>\<open>void\<close>: a run that comes
  to the end of the body returns the unit value.
\<close>

definition RegisterPlugins ::
  "('h, 'e, 'w) plugin_modules \<Rightarrow> ('h, 'e, 'w) PluginRegistry option \<Rightarrow> (unit, 'e, 'w) comp" where
  "RegisterPlugins plugins registry =
    seqC (call_with (plugins FileSelectorWindowsRegisterWithRegistrar)
            (arrow_GetRegistrarForPlugin registry ''FileSelectorWindows''))
   (seqC (call_with (plugins FlutterSecureStorageWindowsPluginRegisterWithRegistrar)
            (arrow_GetRegistrarForPlugin registry ''FlutterSecureStorageWindowsPlugin''))
   (seqC (call_with (plugins FlutterTimezonePluginCApiRegisterWithRegistrar)
            (arrow_GetRegistrarForPlugin registry ''FlutterTimezonePluginCApi''))
   (seqC (call_with (plugins MediaKitVideoPluginCApiRegisterWithRegistrar)
            (arrow_GetRegistrarForPlugin registry ''MediaKitVideoPluginCApi''))
   (seqC (call_with (plugins PermissionHandlerWindowsPluginRegisterWithRegistrar)
            (arrow_GetRegistrarForPlugin registry ''PermissionHandlerWindowsPlugin''))
   (seqC (call_with (plugins SimpleAnimationProgressBarPluginCApiRegisterWithRegistrar)
            (arrow_GetRegistrarForPlugin registry ''SimpleAnimationProgressBarPluginCApi''))
   (seqC (call_with (plugins UrlLauncherWindowsRegisterWithRegistrar)
            (arrow_GetRegistrarForPlugin registry ''UrlLauncherWindows''))
         (call_with (plugins VolumeControllerPluginCApiRegisterWithRegistrar)
            (arrow_GetRegistrarForPlugin registry ''VolumeControllerPluginCApi''))))))))"

subsection \<open>Observing a run\<close>

text \<open>
  To speak about the calls a run makes, the external functions are wrapped so that each
  call is written to a log: which function was called, with what argument, what it
  answered, and the host state before and after it. The wrappers only add the log; the
  function they wrap sees the same state and gives the same answer.
\<close>

datatype ('h, 'e) call =
    GetRegistrarForPlugin_call string "'e + 'h"
  | RegisterWithRegistrar_call entry_point 'h "'e + unit"

datatype ('h, 'e, 'w) event = Event (call: "('h, 'e) call") (before: 'w) (after: 'w)

definition spy_registry ::
  "('h, 'e, 'w) PluginRegistry \<Rightarrow> ('h, 'e, 'w \<times> ('h, 'e, 'w) event list) PluginRegistry" where
  "spy_registry r =
     \<lparr>GetRegistrarForPlugin = (\<lambda>name (w, log).
        case GetRegistrarForPlugin r name w of
          (res, w') \<Rightarrow> (res, (w', log @ [Event (GetRegistrarForPlugin_call name res) w w'])))\<rparr>"

definition spy_plugins ::
  "('h, 'e, 'w) plugin_modules \<Rightarrow> ('h, 'e, 'w \<times> ('h, 'e, 'w) event list) plugin_modules" where
  "spy_plugins plugins p h = (\<lambda>(w, log).
     case plugins p h w of
       (res, w') \<Rightarrow> (res, (w', log @ [Event (RegisterWithRegistrar_call p h res) w w'])))"

text \<open>The log of one run of \<open>RegisterPlugins\<close> from host state \<open>w\<close>.\<close>

definition trace_of ::
  "('h, 'e, 'w) plugin_modules \<Rightarrow> ('h, 'e, 'w) PluginRegistry option \<Rightarrow> 'w \<Rightarrow> ('h, 'e, 'w) event list" where
  "trace_of plugins registry w =
     snd (snd (RegisterPlugins (spy_plugins plugins) (map_option spy_registry registry) (w, [])))"

text \<open>Readings of a log: the names looked up, and the entry points called, in order.\<close>

fun lookup_names :: "('h, 'e, 'w) event list \<Rightarrow> string list" where
  "lookup_names [] = []"
| "lookup_names (Event (GetRegistrarForPlugin_call name res) w w' # evs) = name # lookup_names evs"
| "lookup_names (Event (RegisterWithRegistrar_call p h res) w w' # evs) = lookup_names evs"

fun registrations :: "('h, 'e, 'w) event list \<Rightarrow> entry_point list" where
  "registrations [] = []"
| "registrations (Event (GetRegistrarForPlugin_call name res) w w' # evs) = registrations evs"
| "registrations (Event (RegisterWithRegistrar_call p h res) w w' # evs) = p # registrations evs"

text \<open>The failure an external call raised, if it raised one.\<close>

fun raised :: "('h, 'e, 'w) event \<Rightarrow> 'e option" where
  "raised (Event (GetRegistrarForPlugin_call name (Inl e)) w w') = Some e"
| "raised (Event (GetRegistrarForPlugin_call name (Inr h)) w w') = None"
| "raised (Event (RegisterWithRegistrar_call p h (Inl e)) w w') = Some e"
| "raised (Event (RegisterWithRegistrar_call p h (Inr u)) w w') = None"

text \<open>
  A log entry is honest when the answer and the state after it are what the external
  function gives in the state before it.
\<close>

fun honest :: "('h, 'e, 'w) plugin_modules \<Rightarrow> ('h, 'e, 'w) PluginRegistry \<Rightarrow> ('h, 'e, 'w) event \<Rightarrow> bool" where
  "honest plugins r (Event (GetRegistrarForPlugin_call name res) w w') =
     (GetRegistrarForPlugin r name w = (res, w'))"
| "honest plugins r (Event (RegisterWithRegistrar_call p h res) w w') =
     (plugins p h w = (res, w'))"

text \<open>
  A log is chained from \<open>w\<close> to \<open>w'\<close> when its first call starts in \<open>w\<close>, each
  later call starts in the state the call before it left, and the last one leaves \<open>w'\<close>:
  nothing but the logged calls changed the state, and no call started before the one
  before it was back.
\<close>

fun chained :: "'w \<Rightarrow> ('h, 'e, 'w) event list \<Rightarrow> 'w \<Rightarrow> bool" where
  "chained w [] w' = (w' = w)"
| "chained w (ev # evs) w' = (before ev = w \<and> chained (after ev) evs w')"

text \<open>Every external call returns: none raises, in any state, on any argument.\<close>

definition all_return :: "('h, 'e, 'w) plugin_modules \<Rightarrow> ('h, 'e, 'w) PluginRegistry \<Rightarrow> bool" where
  "all_return plugins r \<longleftrightarrow>
     (\<forall>name w. \<exists>h. fst (GetRegistrarForPlugin r name w) = Inr h) \<and>
     (\<forall>p h w. fst (plugins p h w) = Inr ())"

subsection \<open>The body as a table\<close>

text \<open>
  The eight statements differ only in the entry point and the name. For the proofs the
  body is read as a loop over the table of these pairs; \<open>RegisterPlugins_table\<close> below
  shows that this reading is the function itself.
\<close>

definition registrant_table :: "(entry_point \<times> string) list" where
  "registrant_table =
    [(FileSelectorWindowsRegisterWithRegistrar, ''FileSelectorWindows''),
     (FlutterSecureStorageWindowsPluginRegisterWithRegistrar, ''FlutterSecureStorageWindowsPlugin''),
     (FlutterTimezonePluginCApiRegisterWithRegistrar, ''FlutterTimezonePluginCApi''),
     (MediaKitVideoPluginCApiRegisterWithRegistrar, ''MediaKitVideoPluginCApi''),
     (PermissionHandlerWindowsPluginRegisterWithRegistrar, ''PermissionHandlerWindowsPlugin''),
     (SimpleAnimationProgressBarPluginCApiRegisterWithRegistrar, ''SimpleAnimationProgressBarPluginCApi''),
     (UrlLauncherWindowsRegisterWithRegistrar, ''UrlLauncherWindows''),
     (VolumeControllerPluginCApiRegisterWithRegistrar, ''VolumeControllerPluginCApi'')]"

fun register_all ::
  "('h, 'e, 'w) plugin_modules \<Rightarrow> ('h, 'e, 'w) PluginRegistry option \<Rightarrow> (entry_point \<times> string) list
     \<Rightarrow> (unit, 'e, 'w) comp" where
  "register_all plugins registry [] = (\<lambda>w. (Inr (), w))"
| "register_all plugins registry ((p, name) # tbl) =
     seqC (call_with (plugins p) (arrow_GetRegistrarForPlugin registry name))
          (register_all plugins registry tbl)"

text \<open>
  The observed run of the table from \<open>w\<close>, written out call by call: the result, the
  final state and the log.
\<close>

fun observe ::
  "('h, 'e, 'w) plugin_modules \<Rightarrow> ('h, 'e, 'w) PluginRegistry \<Rightarrow> (entry_point \<times> string) list \<Rightarrow> 'w
     \<Rightarrow> ('e failure + unit) \<times> 'w \<times> ('h, 'e, 'w) event list" where
  "observe plugins r [] w = (Inr (), w, [])"
| "observe plugins r ((p, name) # tbl) w =
     (case GetRegistrarForPlugin r name w of
        (Inl e, w1) \<Rightarrow> (Inl (Thrown e), w1, [Event (GetRegistrarForPlugin_call name (Inl e)) w w1])
      | (Inr h, w1) \<Rightarrow>
          (case plugins p h w1 of
             (Inl e, w2) \<Rightarrow>
               (Inl (Thrown e), w2,
                [Event (GetRegistrarForPlugin_call name (Inr h)) w w1,
                 Event (RegisterWithRegistrar_call p h (Inl e)) w1 w2])
           | (Inr u, w2) \<Rightarrow>
               (case observe plugins r tbl w2 of
                  (res, w', evs) \<Rightarrow>
                    (res, w',
                     Event (GetRegistrarForPlugin_call name (Inr h)) w w1 #
                     Event (RegisterWithRegistrar_call p h (Inr u)) w1 w2 # evs))))"

text \<open>
  A list of calls made of pairs: a lookup that returned a handle, then at once a
  registration call that is given that same handle.
\<close>

fun lookup_then_register :: "('h, 'e) call list \<Rightarrow> bool" where
  "lookup_then_register [] = True"
| "lookup_then_register (GetRegistrarForPlugin_call name (Inr h) # RegisterWithRegistrar_call p h' res # cs) =
     (h' = h \<and> lookup_then_register cs)"
| "lookup_then_register cs = False"

text \<open>
  The plugin an entry point belongs to: its identifier without the suffix
  \<^verbatim>\<open>RegisterWithRegistrar\<close>.
\<close>

fun plugin_name :: "entry_point \<Rightarrow> string" where
  "plugin_name FileSelectorWindowsRegisterWithRegistrar = ''FileSelectorWindows''"
| "plugin_name FlutterSecureStorageWindowsPluginRegisterWithRegistrar = ''FlutterSecureStorageWindowsPlugin''"
| "plugin_name FlutterTimezonePluginCApiRegisterWithRegistrar = ''FlutterTimezonePluginCApi''"
| "plugin_name MediaKitVideoPluginCApiRegisterWithRegistrar = ''MediaKitVideoPluginCApi''"
| "plugin_name PermissionHandlerWindowsPluginRegisterWithRegistrar = ''PermissionHandlerWindowsPlugin''"
| "plugin_name SimpleAnimationProgressBarPluginCApiRegisterWithRegistrar = ''SimpleAnimationProgressBarPluginCApi''"
| "plugin_name UrlLauncherWindowsRegisterWithRegistrar = ''UrlLauncherWindows''"
| "plugin_name VolumeControllerPluginCApiRegisterWithRegistrar = ''VolumeControllerPluginCApi''"

text \<open>
  A list of calls in which every handle goes from its lookup straight to its plugin,
  whether or not the run got to its end. The list is made of pairs: a lookup that
  returned a handle, then at once the call of an entry point that belongs to the name
  looked up, on that same handle. Nothing follows a call that raised: a lookup that
  raised stands alone at the end, and so does the pair of a registration that raised.
\<close>

fun forwarded :: "('h, 'e) call list \<Rightarrow> bool" where
  "forwarded [] = True"
| "forwarded [GetRegistrarForPlugin_call name (Inl e)] = True"
| "forwarded [GetRegistrarForPlugin_call name (Inr h), RegisterWithRegistrar_call p h' (Inl e)] =
     (h' = h \<and> plugin_name p = name)"
| "forwarded (GetRegistrarForPlugin_call name (Inr h) # RegisterWithRegistrar_call p h' (Inr u) # cs) =
     (h' = h \<and> plugin_name p = name \<and> forwarded cs)"
| "forwarded cs = False"

text \<open>The two calls of one statement when both return, the lookup with handle \<open>h\<close>.\<close>

definition statement_calls :: "entry_point \<times> string \<Rightarrow> 'h \<Rightarrow> ('h, 'e) call list" where
  "statement_calls pn h =
     [GetRegistrarForPlugin_call (snd pn) (Inr h), RegisterWithRegistrar_call (fst pn) h (Inr ())]"

text \<open>
  A second host that is the first with its handles renamed by \<open>f\<close>: its registry
  answers \<open>f h\<close> where the first answers \<open>h\<close>, and its plugins do with \<open>f h\<close>
  what the first host's do with \<open>h\<close>.
\<close>

definition relabelled ::
  "('h \<Rightarrow> 'k) \<Rightarrow> ('h, 'e, 'w) plugin_modules \<Rightarrow> ('h, 'e, 'w) PluginRegistry
     \<Rightarrow> ('k, 'e, 'w) plugin_modules \<Rightarrow> ('k, 'e, 'w) PluginRegistry \<Rightarrow> bool" where
  "relabelled f plugins r plugins' r' \<longleftrightarrow>
     (\<forall>name w. GetRegistrarForPlugin r' name w =
        (map_sum id f (fst (GetRegistrarForPlugin r name w)), snd (GetRegistrarForPlugin r name w))) \<and>
     (\<forall>p h w. plugins' p (f h) w = plugins p h w)"

subsection \<open>Sample hosts\<close>

text \<open>
  A host whose state is a count of the external calls made so far and a locale string
  that no call touches. The registry hands out the length of the name plus the count as
  the handle, and every plugin registers without failure.
\<close>

definition counting_registry :: "(nat, string, nat \<times> string) PluginRegistry" where
  "counting_registry =
     \<lparr>GetRegistrarForPlugin = (\<lambda>name (n, loc). (Inr (length name + n), (Suc n, loc)))\<rparr>"

definition counting_plugins :: "(nat, string, nat \<times> string) plugin_modules" where
  "counting_plugins p h = (\<lambda>(n, loc). (Inr (), (Suc n, loc)))"

text \<open>The same host, when the time zone plugin raises during registration.\<close>

definition faulty_plugins :: "(nat, string, nat \<times> string) plugin_modules" where
  "faulty_plugins p h = (\<lambda>(n, loc).
     if p = FlutterTimezonePluginCApiRegisterWithRegistrar then (Inl ''no time zone'', (Suc n, loc))
     else (Inr (), (Suc n, loc)))"

text \<open>
  A registry that knows no plugin of the name \<open>NoSuchPlugin\<close> and raises when asked
  for it; on every other name it answers as the counting registry does.
\<close>

definition picky_registry :: "(nat, string, nat \<times> string) PluginRegistry" where
  "picky_registry =
     \<lparr>GetRegistrarForPlugin = (\<lambda>name (n, loc).
        if name = ''NoSuchPlugin'' then (Inl ''unknown plugin'', (n, loc))
        else (Inr (length name + n), (Suc n, loc)))\<rparr>"

text \<open>The same registry with every handle moved up by a hundred.\<close>

definition shifted_registry :: "(nat, string, nat \<times> string) PluginRegistry" where
  "shifted_registry =
     \<lparr>GetRegistrarForPlugin = (\<lambda>name (n, loc). (Inr (length name + n + 100), (Suc n, loc)))\<rparr>"

text \<open>A host with no state at all and a single handle.\<close>

definition silent_registry :: "(unit, unit, unit) PluginRegistry" where
  "silent_registry = \<lparr>GetRegistrarForPlugin = (\<lambda>name w. (Inr (), w))\<rparr>"

definition silent_plugins :: "(unit, unit, unit) plugin_modules" where
  "silent_plugins p h w = (Inr (), w)"

section \<open>Properties\<close>

subsection \<open>The table and the observed run\<close>

lemma seqC_skip: "seqC s (\<lambda>w. (Inr (), w)) = s"
  by (auto simp: seqC_def bindC_def fun_eq_iff split: prod.splits sum.splits)

lemma RegisterPlugins_table:
  "RegisterPlugins plugins registry = register_all plugins registry registrant_table"
  by (simp add: RegisterPlugins_def registrant_table_def seqC_skip)

lemma register_all_null:
  "register_all plugins None ((p, name) # tbl) w = (Inl NullDereference, w)"
  by (simp add: seqC_def bindC_def call_with_def arrow_GetRegistrarForPlugin_def)

lemma statement_step:
  "call_with (plugins p) (arrow_GetRegistrarForPlugin (Some r) name) w =
     (case GetRegistrarForPlugin r name w of
        (Inl e, w1) \<Rightarrow> (Inl (Thrown e), w1)
      | (Inr h, w1) \<Rightarrow>
          (case plugins p h w1 of
             (Inl e, w2) \<Rightarrow> (Inl (Thrown e), w2)
           | (Inr u, w2) \<Rightarrow> (Inr (), w2)))"
  by (simp add: bindC_def call_with_def arrow_GetRegistrarForPlugin_def extern_def
      split: prod.splits sum.splits)

lemma spy_registry_apply:
  "GetRegistrarForPlugin (spy_registry r) name (w, log) =
     (fst (GetRegistrarForPlugin r name w),
      snd (GetRegistrarForPlugin r name w),
      log @ [Event (GetRegistrarForPlugin_call name (fst (GetRegistrarForPlugin r name w))) w
               (snd (GetRegistrarForPlugin r name w))])"
  by (simp add: spy_registry_def split: prod.splits)

lemma spy_plugins_apply:
  "spy_plugins plugins p h (w, log) =
     (fst (plugins p h w), snd (plugins p h w),
      log @ [Event (RegisterWithRegistrar_call p h (fst (plugins p h w))) w (snd (plugins p h w))])"
  by (simp add: spy_plugins_def split: prod.splits)

lemma register_all_observe:
  "register_all plugins (Some r) tbl w = (case observe plugins r tbl w of (res, w', evs) \<Rightarrow> (res, w'))"
proof (induction tbl arbitrary: w)
  case Nil
  show ?case by simp
next
  case (Cons pn tbl)
  obtain p name where pn: "pn = (p, name)" by (cases pn)
  show ?case
    unfolding pn
    by (simp add: seqC_def bindC_def statement_step Cons.IH split: prod.splits sum.splits)
qed

lemma register_all_spy:
  "register_all (spy_plugins plugins) (Some (spy_registry r)) tbl (w, log) =
     (case observe plugins r tbl w of (res, w', evs) \<Rightarrow> (res, (w', log @ evs)))"
proof (induction tbl arbitrary: w log)
  case Nil
  show ?case by simp
next
  case (Cons pn tbl)
  obtain p name where pn: "pn = (p, name)" by (cases pn)
  show ?case
    unfolding pn
    by (simp add: seqC_def bindC_def statement_step spy_registry_apply spy_plugins_apply Cons.IH
        split: prod.splits sum.splits)
qed

lemma trace_of_observe:
  "trace_of plugins (Some r) w = snd (snd (observe plugins r registrant_table w))"
  by (simp add: trace_of_def RegisterPlugins_table register_all_spy split: prod.splits)

lemma trace_of_null: "trace_of plugins None w = []"
  unfolding trace_of_def RegisterPlugins_table registrant_table_def
  by (simp only: option.map register_all_null snd_conv)

lemma RegisterPlugins_observe:
  "RegisterPlugins plugins (Some r) w =
     (fst (observe plugins r registrant_table w), fst (snd (observe plugins r registrant_table w)))"
  by (simp add: RegisterPlugins_table register_all_observe split: prod.splits)

lemma RegisterPlugins_null: "RegisterPlugins plugins None w = (Inl NullDereference, w)"
  unfolding RegisterPlugins_table registrant_table_def
  by (simp only: register_all_null)

text \<open>The wrappers are transparent: the run they log is the run without them.\<close>

lemma spy_transparent:
  "RegisterPlugins (spy_plugins plugins) (map_option spy_registry registry) (w, log) =
     (fst (RegisterPlugins plugins registry w),
      snd (RegisterPlugins plugins registry w),
      log @ trace_of plugins registry w)"
proof (cases registry)
  case None
  then show ?thesis by (simp add: RegisterPlugins_null trace_of_null)
next
  case (Some r)
  have "RegisterPlugins (spy_plugins plugins) (Some (spy_registry r)) (w, log) =
      (case observe plugins r registrant_table w of (res, w', evs) \<Rightarrow> (res, w', log @ evs))"
    by (simp only: RegisterPlugins_table register_all_spy)
  with Some show ?thesis
    by (simp add: RegisterPlugins_observe trace_of_observe split: prod.splits)
qed

lemma names_lt: "sorted_wrt (<) (map snd registrant_table)"
  by (simp add: registrant_table_def)

lemma observe_step [case_names lookup_raises register_raises continues]:
  obtains
    e w1 where
      "GetRegistrarForPlugin r (snd pn) w = (Inl e, w1)"
      "observe plugins r (pn # tbl) w =
         (Inl (Thrown e), w1, [Event (GetRegistrarForPlugin_call (snd pn) (Inl e)) w w1])"
  | h w1 e w2 where
      "GetRegistrarForPlugin r (snd pn) w = (Inr h, w1)"
      "plugins (fst pn) h w1 = (Inl e, w2)"
      "observe plugins r (pn # tbl) w =
         (Inl (Thrown e), w2,
          [Event (GetRegistrarForPlugin_call (snd pn) (Inr h)) w w1,
           Event (RegisterWithRegistrar_call (fst pn) h (Inl e)) w1 w2])"
  | h w1 w2 res w' evs where
      "GetRegistrarForPlugin r (snd pn) w = (Inr h, w1)"
      "plugins (fst pn) h w1 = (Inr (), w2)"
      "observe plugins r tbl w2 = (res, w', evs)"
      "observe plugins r (pn # tbl) w =
         (res, w',
          Event (GetRegistrarForPlugin_call (snd pn) (Inr h)) w w1 #
          Event (RegisterWithRegistrar_call (fst pn) h (Inr ())) w1 w2 # evs)"
proof -
  obtain p name where pn: "pn = (p, name)" by (cases pn)
  obtain a w1 where lookup: "GetRegistrarForPlugin r name w = (a, w1)"
    by (cases "GetRegistrarForPlugin r name w")
  show thesis
  proof (cases a)
    case (Inl e)
    with lookup pn that(1) show thesis by simp
  next
    case (Inr h)
    obtain b w2 where reg: "plugins p h w1 = (b, w2)" by (cases "plugins p h w1")
    show thesis
    proof (cases b)
      case (Inl e)
      with lookup \<open>a = Inr h\<close> reg pn that(2) show thesis by simp
    next
      case (Inr u)
      obtain res w' evs where rest: "observe plugins r tbl w2 = (res, w', evs)"
        by (cases "observe plugins r tbl w2")
      with lookup \<open>a = Inr h\<close> reg Inr pn that(3) show thesis by simp
    qed
  qed
qed

lemma all_return_lookup:
  assumes "all_return plugins r" and "GetRegistrarForPlugin r name w = (a, w1)"
  shows "\<exists>h. a = Inr h"
  using assms unfolding all_return_def by (metis fst_conv)

lemma all_return_register:
  assumes "all_return plugins r" and "plugins p h w = (b, w1)"
  shows "b = Inr ()"
  using assms unfolding all_return_def by (metis fst_conv)

lemma observe_all_return:
  assumes "all_return plugins r"
  shows "fst (observe plugins r tbl w) = Inr () \<and>
         lookup_names (snd (snd (observe plugins r tbl w))) = map snd tbl \<and>
         registrations (snd (snd (observe plugins r tbl w))) = map fst tbl \<and>
         lookup_then_register (map call (snd (snd (observe plugins r tbl w)))) \<and>
         length (snd (snd (observe plugins r tbl w))) = 2 * length tbl"
proof (induction tbl arbitrary: w)
  case Nil
  show ?case by simp
next
  case (Cons pn tbl)
  show ?case
  proof (cases rule: observe_step [of r pn w plugins tbl])
    case (lookup_raises e w1)
    with all_return_lookup [OF assms lookup_raises(1)] show ?thesis by simp
  next
    case (register_raises h w1 e w2)
    with all_return_register [OF assms register_raises(2)] show ?thesis by simp
  next
    case (continues h w1 w2 res w' evs)
    with Cons.IH [of w2] show ?thesis by simp
  qed
qed

lemma observe_always:
  "prefix (lookup_names (snd (snd (observe plugins r tbl w)))) (map snd tbl) \<and>
   prefix (registrations (snd (snd (observe plugins r tbl w)))) (map fst tbl) \<and>
   chained w (snd (snd (observe plugins r tbl w))) (fst (snd (observe plugins r tbl w))) \<and>
   list_all (honest plugins r) (snd (snd (observe plugins r tbl w)))"
proof (induction tbl arbitrary: w)
  case Nil
  show ?case by simp
next
  case (Cons pn tbl)
  show ?case
  proof (cases rule: observe_step [of r pn w plugins tbl])
    case (lookup_raises e w1)
    then show ?thesis by simp
  next
    case (register_raises h w1 e w2)
    then show ?thesis by simp
  next
    case (continues h w1 w2 res w' evs)
    with Cons.IH [of w2] show ?thesis by simp
  qed
qed

lemma observe_failure:
  "list_all (\<lambda>ev. raised ev = None) (butlast (snd (snd (observe plugins r tbl w)))) \<and>
   (tbl \<noteq> [] \<longrightarrow> snd (snd (observe plugins r tbl w)) \<noteq> [] \<and>
      fst (observe plugins r tbl w) =
        (case raised (last (snd (snd (observe plugins r tbl w)))) of
           Some e \<Rightarrow> Inl (Thrown e) | None \<Rightarrow> Inr ()) \<and>
      fst (snd (observe plugins r tbl w)) = after (last (snd (snd (observe plugins r tbl w)))))"
proof (induction tbl arbitrary: w)
  case Nil
  show ?case by simp
next
  case (Cons pn tbl)
  show ?case
  proof (cases rule: observe_step [of r pn w plugins tbl])
    case (lookup_raises e w1)
    then show ?thesis by simp
  next
    case (register_raises h w1 e w2)
    then show ?thesis by simp
  next
    case (continues h w1 w2 res w' evs)
    show ?thesis
    proof (cases tbl)
      case Nil
      with continues show ?thesis by auto
    next
      case (Cons a list)
      with continues Cons.IH [of w2] show ?thesis by simp
    qed
  qed
qed

lemma observe_frame:
  assumes "\<And>name w. f (snd (GetRegistrarForPlugin r name w)) = f w"
    and "\<And>p h w. f (snd (plugins p h w)) = f w"
  shows "f (fst (snd (observe plugins r tbl w))) = f w"
proof (induction tbl arbitrary: w)
  case Nil
  show ?case by simp
next
  case (Cons pn tbl)
  show ?case
  proof (cases rule: observe_step [of r pn w plugins tbl])
    case (lookup_raises e w1)
    with assms(1) [of "snd pn" w] show ?thesis by simp
  next
    case (register_raises h w1 e w2)
    with assms(1) [of "snd pn" w] assms(2) [of "fst pn" h w1] show ?thesis by simp
  next
    case (continues h w1 w2 res w' evs)
    with assms(1) [of "snd pn" w] assms(2) [of "fst pn" h w1] Cons.IH [of w2]
    show ?thesis by simp
  qed
qed

text \<open>Runs in which no call made raised.\<close>

lemma observe_calls_returned:
  assumes "list_all (\<lambda>ev. raised ev = None) (snd (snd (observe plugins r tbl w)))"
  shows "fst (observe plugins r tbl w) = Inr () \<and>
         lookup_names (snd (snd (observe plugins r tbl w))) = map snd tbl \<and>
         registrations (snd (snd (observe plugins r tbl w))) = map fst tbl \<and>
         lookup_then_register (map call (snd (snd (observe plugins r tbl w)))) \<and>
         length (snd (snd (observe plugins r tbl w))) = 2 * length tbl \<and>
         (\<exists>hs. length hs = length tbl \<and>
            map call (snd (snd (observe plugins r tbl w))) = concat (map2 statement_calls tbl hs))"
  using assms
proof (induction tbl arbitrary: w)
  case Nil
  show ?case by simp
next
  case (Cons pn tbl)
  show ?case
  proof (cases rule: observe_step [of r pn w plugins tbl])
    case (lookup_raises e w1)
    with Cons.prems show ?thesis by simp
  next
    case (register_raises h w1 e w2)
    with Cons.prems show ?thesis by simp
  next
    case (continues h w1 w2 res w' evs)
    with Cons.prems have "list_all (\<lambda>ev. raised ev = None) (snd (snd (observe plugins r tbl w2)))"
      by simp
    from Cons.IH [OF this] continues(3) obtain hs where
      rest: "res = Inr ()" "lookup_names evs = map snd tbl" "registrations evs = map fst tbl"
        "lookup_then_register (map call evs)" "length evs = 2 * length tbl"
      and hs: "length hs = length tbl" "map call evs = concat (map2 statement_calls tbl hs)"
      by auto
    have "length (h # hs) = length (pn # tbl) \<and>
          map call (snd (snd (observe plugins r (pn # tbl) w))) =
            concat (map2 statement_calls (pn # tbl) (h # hs))"
      using hs continues(4) by (simp add: statement_calls_def)
    then have "\<exists>hs. length hs = length (pn # tbl) \<and>
            map call (snd (snd (observe plugins r (pn # tbl) w))) =
              concat (map2 statement_calls (pn # tbl) hs)"
      by blast
    with rest continues(4) show ?thesis by simp
  qed
qed

lemma observe_normal_return:
  assumes "fst (observe plugins r tbl w) = Inr ()"
  shows "list_all (\<lambda>ev. raised ev = None) (snd (snd (observe plugins r tbl w)))"
  using assms
proof (induction tbl arbitrary: w)
  case Nil
  show ?case by simp
next
  case (Cons pn tbl)
  show ?case
  proof (cases rule: observe_step [of r pn w plugins tbl])
    case (lookup_raises e w1)
    with Cons.prems show ?thesis by simp
  next
    case (register_raises h w1 e w2)
    with Cons.prems show ?thesis by simp
  next
    case (continues h w1 w2 res w' evs)
    with Cons.prems Cons.IH [of w2] show ?thesis by simp
  qed
qed

lemma observe_forwarded:
  assumes "list_all (\<lambda>pn. plugin_name (fst pn) = snd pn) tbl"
  shows "forwarded (map call (snd (snd (observe plugins r tbl w)))) \<and>
         length (snd (snd (observe plugins r tbl w))) \<le> 2 * length tbl"
  using assms
proof (induction tbl arbitrary: w)
  case Nil
  show ?case by simp
next
  case (Cons pn tbl)
  show ?case
  proof (cases rule: observe_step [of r pn w plugins tbl])
    case (lookup_raises e w1)
    then show ?thesis by simp
  next
    case (register_raises h w1 e w2)
    with Cons.prems show ?thesis by simp
  next
    case (continues h w1 w2 res w' evs)
    with Cons.prems Cons.IH [of w2] show ?thesis by simp
  qed
qed

lemma eight_handles:
  assumes "length hs = length registrant_table"
  obtains h1 h2 h3 h4 h5 h6 h7 h8 where "hs = [h1, h2, h3, h4, h5, h6, h7, h8]"
  using assms by (auto simp: registrant_table_def length_Suc_conv)

lemma register_all_relabel:
  assumes "relabelled f plugins r plugins' r'"
  shows "register_all plugins' (Some r') tbl w = register_all plugins (Some r) tbl w"
proof (induction tbl arbitrary: w)
  case Nil
  show ?case by simp
next
  case (Cons pn tbl)
  obtain p name where pn: "pn = (p, name)" by (cases pn)
  have lookup: "GetRegistrarForPlugin r' name w =
      (map_sum id f (fst (GetRegistrarForPlugin r name w)), snd (GetRegistrarForPlugin r name w))"
    using assms by (simp add: relabelled_def)
  have reg: "plugins' p (f h) w1 = plugins p h w1" for h w1
    using assms by (simp add: relabelled_def)
  have "call_with (plugins' p) (arrow_GetRegistrarForPlugin (Some r') name) w =
        call_with (plugins p) (arrow_GetRegistrarForPlugin (Some r) name) w"
    by (cases "GetRegistrarForPlugin r name w"; cases "fst (GetRegistrarForPlugin r name w)")
       (simp_all add: statement_step lookup reg)
  then show ?case
    unfolding pn by (simp add: seqC_def bindC_def Cons.IH split: prod.splits sum.splits)
qed

subsection \<open>Facts about the whole function\<close>

lemma prefix_sorted_wrt: "prefix xs ys \<Longrightarrow> sorted_wrt P ys \<Longrightarrow> sorted_wrt P xs"
  by (auto simp: prefix_def sorted_wrt_append)

lemma prefix_distinct: "prefix xs ys \<Longrightarrow> distinct ys \<Longrightarrow> distinct xs"
  by (auto simp: prefix_def)

lemma table_names:
  "map snd registrant_table =
     [''FileSelectorWindows'', ''FlutterSecureStorageWindowsPlugin'',
      ''FlutterTimezonePluginCApi'', ''MediaKitVideoPluginCApi'',
      ''PermissionHandlerWindowsPlugin'', ''SimpleAnimationProgressBarPluginCApi'',
      ''UrlLauncherWindows'', ''VolumeControllerPluginCApi'']"
  by (simp add: registrant_table_def)

lemma table_entry_points:
  "map fst registrant_table =
     [FileSelectorWindowsRegisterWithRegistrar,
      FlutterSecureStorageWindowsPluginRegisterWithRegistrar,
      FlutterTimezonePluginCApiRegisterWithRegistrar,
      MediaKitVideoPluginCApiRegisterWithRegistrar,
      PermissionHandlerWindowsPluginRegisterWithRegistrar,
      SimpleAnimationProgressBarPluginCApiRegisterWithRegistrar,
      UrlLauncherWindowsRegisterWithRegistrar,
      VolumeControllerPluginCApiRegisterWithRegistrar]"
  by (simp add: registrant_table_def)

lemma trace_prefix:
  "prefix (lookup_names (trace_of plugins registry w)) (map snd registrant_table) \<and>
   prefix (registrations (trace_of plugins registry w)) (map fst registrant_table)"
proof (cases registry)
  case None
  then show ?thesis by (simp add: trace_of_null)
next
  case (Some r)
  then show ?thesis by (simp add: trace_of_observe observe_always)
qed

lemma trace_full:
  assumes "all_return plugins r"
  shows "lookup_names (trace_of plugins (Some r) w) = map snd registrant_table"
    and "registrations (trace_of plugins (Some r) w) = map fst registrant_table"
    and "lookup_then_register (map call (trace_of plugins (Some r) w))"
    and "length (trace_of plugins (Some r) w) = 2 * length registrant_table"
  using observe_all_return [OF assms, of registrant_table w] by (simp_all only: trace_of_observe)

lemma trace_distinct:
  "distinct (lookup_names (trace_of plugins registry w))"
  "distinct (registrations (trace_of plugins registry w))"
proof -
  have "distinct (map snd registrant_table)" "distinct (map fst registrant_table)"
    by (simp_all add: registrant_table_def)
  with trace_prefix [of plugins registry w]
  show "distinct (lookup_names (trace_of plugins registry w))"
    "distinct (registrations (trace_of plugins registry w))"
    by (blast intro: prefix_distinct)+
qed

lemma lookup_names_append: "lookup_names (xs @ ys) = lookup_names xs @ lookup_names ys"
  by (induction xs rule: lookup_names.induct) simp_all

lemma registrations_append: "registrations (xs @ ys) = registrations xs @ registrations ys"
  by (induction xs rule: registrations.induct) simp_all

lemma trace_distinct_so_far:
  "distinct (lookup_names (take k (trace_of plugins registry w)))"
  "distinct (registrations (take k (trace_of plugins registry w)))"
proof -
  let ?tr = "trace_of plugins registry w"
  have "lookup_names ?tr = lookup_names (take k ?tr) @ lookup_names (drop k ?tr)"
    by (simp only: lookup_names_append [symmetric] append_take_drop_id)
  with trace_distinct(1) [of plugins registry w]
  show "distinct (lookup_names (take k ?tr))" by simp
  have "registrations ?tr = registrations (take k ?tr) @ registrations (drop k ?tr)"
    by (simp only: registrations_append [symmetric] append_take_drop_id)
  with trace_distinct(2) [of plugins registry w]
  show "distinct (registrations (take k ?tr))" by simp
qed

lemma trace_chained:
  "chained w (trace_of plugins registry w) (snd (RegisterPlugins plugins registry w))"
proof (cases registry)
  case None
  then show ?thesis by (simp add: trace_of_null RegisterPlugins_null)
next
  case (Some r)
  then show ?thesis by (simp add: trace_of_observe RegisterPlugins_observe observe_always)
qed

lemma table_plugin_names: "list_all (\<lambda>pn. plugin_name (fst pn) = snd pn) registrant_table"
  by (simp add: registrant_table_def)

lemma trace_forwarded:
  "forwarded (map call (trace_of plugins registry w))"
  "length (trace_of plugins registry w) \<le> 16"
proof -
  have "forwarded (map call (trace_of plugins registry w)) \<and>
        length (trace_of plugins registry w) \<le> 2 * length registrant_table"
  proof (cases registry)
    case None
    then show ?thesis by (simp add: trace_of_null)
  next
    case (Some r)
    with observe_forwarded [OF table_plugin_names, of plugins r w] show ?thesis
      by (simp only: trace_of_observe)
  qed
  then show "forwarded (map call (trace_of plugins registry w))"
    and "length (trace_of plugins registry w) \<le> 16"
    by (simp_all add: registrant_table_def)
qed

lemma trace_calls_returned:
  assumes "registry \<noteq> None"
    and "list_all (\<lambda>ev. raised ev = None) (trace_of plugins registry w)"
  shows "fst (RegisterPlugins plugins registry w) = Inr ()"
    and "lookup_names (trace_of plugins registry w) = map snd registrant_table"
    and "registrations (trace_of plugins registry w) = map fst registrant_table"
    and "lookup_then_register (map call (trace_of plugins registry w))"
    and "length (trace_of plugins registry w) = 16"
    and "\<exists>hs. length hs = length registrant_table \<and>
           map call (trace_of plugins registry w) = concat (map2 statement_calls registrant_table hs)"
proof -
  from assms(1) obtain r where r: "registry = Some r" by auto
  from assms(2) have "list_all (\<lambda>ev. raised ev = None) (snd (snd (observe plugins r registrant_table w)))"
    by (simp only: r trace_of_observe)
  note run = observe_calls_returned [OF this]
  from run show "fst (RegisterPlugins plugins registry w) = Inr ()"
    by (simp add: r RegisterPlugins_observe)
  from run show "lookup_names (trace_of plugins registry w) = map snd registrant_table"
    by (simp only: r trace_of_observe)
  from run show "registrations (trace_of plugins registry w) = map fst registrant_table"
    by (simp only: r trace_of_observe)
  from run show "lookup_then_register (map call (trace_of plugins registry w))"
    by (simp only: r trace_of_observe)
  from run have "length (trace_of plugins registry w) = 2 * length registrant_table"
    by (simp only: r trace_of_observe)
  then show "length (trace_of plugins registry w) = 16"
    by (simp add: registrant_table_def)
  from run show "\<exists>hs. length hs = length registrant_table \<and>
           map call (trace_of plugins registry w) = concat (map2 statement_calls registrant_table hs)"
    by (simp only: r trace_of_observe)
qed

lemma normal_return:
  assumes "fst (RegisterPlugins plugins registry w) = Inr ()"
  shows "registry \<noteq> None"
    and "list_all (\<lambda>ev. raised ev = None) (trace_of plugins registry w)"
proof -
  from assms show nonnull: "registry \<noteq> None"
    by (cases registry) (simp_all add: RegisterPlugins_null)
  then obtain r where r: "registry = Some r" by auto
  with assms have "fst (observe plugins r registrant_table w) = Inr ()"
    by (simp add: RegisterPlugins_observe)
  then show "list_all (\<lambda>ev. raised ev = None) (trace_of plugins registry w)"
    unfolding r trace_of_observe by (rule observe_normal_return)
qed

lemma distinct_count_le_1: "distinct xs \<Longrightarrow> count_list xs x \<le> 1"
  by (induction xs) (auto simp: count_list_0_iff)

lemma prefix_same_length:
  "prefix xs zs \<Longrightarrow> prefix ys zs \<Longrightarrow> length xs = length ys \<Longrightarrow> xs = ys"
  by (auto simp: prefix_def append_eq_append_conv)

lemma RegisterPlugins_returns:
  assumes "all_return plugins r"
  shows "fst (RegisterPlugins plugins (Some r) w) = Inr ()"
  using observe_all_return [OF assms, of registrant_table w] by (simp add: RegisterPlugins_observe)

subsection \<open>The sample hosts\<close>

lemma counting_all_return: "all_return counting_plugins counting_registry"
  by (simp add: all_return_def counting_plugins_def counting_registry_def split: prod.splits)

lemma silent_all_return: "all_return silent_plugins silent_registry"
  by (simp add: all_return_def silent_plugins_def silent_registry_def)

lemma shifted_relabelled:
  "relabelled (\<lambda>h. h + 100) counting_plugins counting_registry counting_plugins shifted_registry"
  by (simp add: relabelled_def counting_plugins_def counting_registry_def shifted_registry_def
      split: prod.splits)

lemma picky_not_all_return: "\<not> all_return counting_plugins picky_registry"
proof
  assume "all_return counting_plugins picky_registry"
  then obtain h where "fst (GetRegistrarForPlugin picky_registry ''NoSuchPlugin'' (0, ''en'')) = Inr h"
    unfolding all_return_def by blast
  then show False by (simp add: picky_registry_def)
qed

lemma picky_trace:
  "map call (trace_of counting_plugins (Some picky_registry) (0, ''en'')) =
      [GetRegistrarForPlugin_call ''FileSelectorWindows'' (Inr 19),
       RegisterWithRegistrar_call FileSelectorWindowsRegisterWithRegistrar 19 (Inr ()),
       GetRegistrarForPlugin_call ''FlutterSecureStorageWindowsPlugin'' (Inr 35),
       RegisterWithRegistrar_call FlutterSecureStorageWindowsPluginRegisterWithRegistrar 35 (Inr ()),
       GetRegistrarForPlugin_call ''FlutterTimezonePluginCApi'' (Inr 29),
       RegisterWithRegistrar_call FlutterTimezonePluginCApiRegisterWithRegistrar 29 (Inr ()),
       GetRegistrarForPlugin_call ''MediaKitVideoPluginCApi'' (Inr 29),
       RegisterWithRegistrar_call MediaKitVideoPluginCApiRegisterWithRegistrar 29 (Inr ()),
       GetRegistrarForPlugin_call ''PermissionHandlerWindowsPlugin'' (Inr 38),
       RegisterWithRegistrar_call PermissionHandlerWindowsPluginRegisterWithRegistrar 38 (Inr ()),
       GetRegistrarForPlugin_call ''SimpleAnimationProgressBarPluginCApi'' (Inr 46),
       RegisterWithRegistrar_call SimpleAnimationProgressBarPluginCApiRegisterWithRegistrar 46 (Inr ()),
       GetRegistrarForPlugin_call ''UrlLauncherWindows'' (Inr 30),
       RegisterWithRegistrar_call UrlLauncherWindowsRegisterWithRegistrar 30 (Inr ()),
       GetRegistrarForPlugin_call ''VolumeControllerPluginCApi'' (Inr 40),
       RegisterWithRegistrar_call VolumeControllerPluginCApiRegisterWithRegistrar 40 (Inr ())]"
  by (simp add: trace_of_observe registrant_table_def counting_plugins_def picky_registry_def)

lemma picky_returned:
  "list_all (\<lambda>ev. raised ev = None) (trace_of counting_plugins (Some picky_registry) (0, ''en''))"
  by (simp add: trace_of_observe registrant_table_def counting_plugins_def picky_registry_def)

lemma counting_run:
  "RegisterPlugins counting_plugins (Some counting_registry) (0, ''en'') = (Inr (), (16, ''en''))"
  by (simp add: RegisterPlugins_observe registrant_table_def counting_plugins_def counting_registry_def)

lemma faulty_trace:
  "trace_of faulty_plugins (Some counting_registry) (0, ''en'') =
     [Event (GetRegistrarForPlugin_call ''FileSelectorWindows'' (Inr 19)) (0, ''en'') (1, ''en''),
      Event (RegisterWithRegistrar_call FileSelectorWindowsRegisterWithRegistrar 19 (Inr ()))
        (1, ''en'') (2, ''en''),
      Event (GetRegistrarForPlugin_call ''FlutterSecureStorageWindowsPlugin'' (Inr 35))
        (2, ''en'') (3, ''en''),
      Event (RegisterWithRegistrar_call FlutterSecureStorageWindowsPluginRegisterWithRegistrar 35 (Inr ()))
        (3, ''en'') (4, ''en''),
      Event (GetRegistrarForPlugin_call ''FlutterTimezonePluginCApi'' (Inr 29)) (4, ''en'') (5, ''en''),
      Event (RegisterWithRegistrar_call FlutterTimezonePluginCApiRegisterWithRegistrar 29
               (Inl ''no time zone''))
        (5, ''en'') (6, ''en'')]"
  by (simp add: trace_of_observe registrant_table_def faulty_plugins_def counting_registry_def)

lemma faulty_run:
  "RegisterPlugins faulty_plugins (Some counting_registry) (0, ''en'') =
     (Inl (Thrown ''no time zone''), (6, ''en''))"
  by (simp add: RegisterPlugins_observe registrant_table_def faulty_plugins_def counting_registry_def)

section \<open>The claims of the specification\<close>

text \<open>
  Throughout, \<open>registry\<close> is the pointer argument (\<open>None\<close> when null, \<open>Some r\<close>
  when it points to the registry object \<open>r\<close>), \<open>plugins\<close> are the eight plugin
  modules, \<open>w\<close> is the host state in which \<open>RegisterPlugins\<close> is called, and
  \<open>trace_of plugins registry w\<close> is the log of the external calls of that run.
\<close>

text \<open>
  C1 (amended). RegisterPlugins performs the eight registration calls in the textual
  order of the source, one after the other, with no branch, loop or skipped call, up
  to the first failure. On every run, for every registry argument and whatever the
  registry and the plugins do, the entry points called form an initial segment of the
  eight in that order. The run performs exactly the eight, in that order, whenever it
  returns normally, and whenever the registry is an object and no external call made
  in the run raises (which then makes it return normally). As stated for every
  registry argument the claim does not hold: a run ends at the first external call
  that raises, and on a null registry before any call.
\<close>

theorem RegisterPlugins_registration_order:
  "prefix (registrations (trace_of plugins registry w))
     [FileSelectorWindowsRegisterWithRegistrar,
      FlutterSecureStorageWindowsPluginRegisterWithRegistrar,
      FlutterTimezonePluginCApiRegisterWithRegistrar,
      MediaKitVideoPluginCApiRegisterWithRegistrar,
      PermissionHandlerWindowsPluginRegisterWithRegistrar,
      SimpleAnimationProgressBarPluginCApiRegisterWithRegistrar,
      UrlLauncherWindowsRegisterWithRegistrar,
      VolumeControllerPluginCApiRegisterWithRegistrar] \<and>
   (fst (RegisterPlugins plugins registry w) = Inr () \<longrightarrow>
      registrations (trace_of plugins registry w) =
     [FileSelectorWindowsRegisterWithRegistrar,
      FlutterSecureStorageWindowsPluginRegisterWithRegistrar,
      FlutterTimezonePluginCApiRegisterWithRegistrar,
      MediaKitVideoPluginCApiRegisterWithRegistrar,
      PermissionHandlerWindowsPluginRegisterWithRegistrar,
      SimpleAnimationProgressBarPluginCApiRegisterWithRegistrar,
      UrlLauncherWindowsRegisterWithRegistrar,
      VolumeControllerPluginCApiRegisterWithRegistrar]) \<and>
   (registry \<noteq> None \<and> list_all (\<lambda>ev. raised ev = None) (trace_of plugins registry w) \<longrightarrow>
      fst (RegisterPlugins plugins registry w) = Inr () \<and>
      registrations (trace_of plugins registry w) =
     [FileSelectorWindowsRegisterWithRegistrar,
      FlutterSecureStorageWindowsPluginRegisterWithRegistrar,
      FlutterTimezonePluginCApiRegisterWithRegistrar,
      MediaKitVideoPluginCApiRegisterWithRegistrar,
      PermissionHandlerWindowsPluginRegisterWithRegistrar,
      SimpleAnimationProgressBarPluginCApiRegisterWithRegistrar,
      UrlLauncherWindowsRegisterWithRegistrar,
      VolumeControllerPluginCApiRegisterWithRegistrar])"
proof (intro conjI impI)
  show "prefix (registrations (trace_of plugins registry w))
     [FileSelectorWindowsRegisterWithRegistrar,
      FlutterSecureStorageWindowsPluginRegisterWithRegistrar,
      FlutterTimezonePluginCApiRegisterWithRegistrar,
      MediaKitVideoPluginCApiRegisterWithRegistrar,
      PermissionHandlerWindowsPluginRegisterWithRegistrar,
      SimpleAnimationProgressBarPluginCApiRegisterWithRegistrar,
      UrlLauncherWindowsRegisterWithRegistrar,
      VolumeControllerPluginCApiRegisterWithRegistrar]"
    using trace_prefix [of plugins registry w] by (simp only: table_entry_points)
next
  assume normal: "fst (RegisterPlugins plugins registry w) = Inr ()"
  have "registrations (trace_of plugins registry w) = map fst registrant_table"
    using normal_return [OF normal] by (rule trace_calls_returned)
  then show "registrations (trace_of plugins registry w) =
     [FileSelectorWindowsRegisterWithRegistrar,
      FlutterSecureStorageWindowsPluginRegisterWithRegistrar,
      FlutterTimezonePluginCApiRegisterWithRegistrar,
      MediaKitVideoPluginCApiRegisterWithRegistrar,
      PermissionHandlerWindowsPluginRegisterWithRegistrar,
      SimpleAnimationProgressBarPluginCApiRegisterWithRegistrar,
      UrlLauncherWindowsRegisterWithRegistrar,
      VolumeControllerPluginCApiRegisterWithRegistrar]"
    by (simp only: table_entry_points)
next
  assume "registry \<noteq> None \<and> list_all (\<lambda>ev. raised ev = None) (trace_of plugins registry w)"
  then have nonnull: "registry \<noteq> None"
    and returned: "list_all (\<lambda>ev. raised ev = None) (trace_of plugins registry w)"
    by simp_all
  from nonnull returned show "fst (RegisterPlugins plugins registry w) = Inr ()"
    by (rule trace_calls_returned)
  have "registrations (trace_of plugins registry w) = map fst registrant_table"
    using nonnull returned by (rule trace_calls_returned)
  then show "registrations (trace_of plugins registry w) =
     [FileSelectorWindowsRegisterWithRegistrar,
      FlutterSecureStorageWindowsPluginRegisterWithRegistrar,
      FlutterTimezonePluginCApiRegisterWithRegistrar,
      MediaKitVideoPluginCApiRegisterWithRegistrar,
      PermissionHandlerWindowsPluginRegisterWithRegistrar,
      SimpleAnimationProgressBarPluginCApiRegisterWithRegistrar,
      UrlLauncherWindowsRegisterWithRegistrar,
      VolumeControllerPluginCApiRegisterWithRegistrar]"
    by (simp only: table_entry_points)
qed

theorem RegisterPlugins_registration_order_counterexample:
  "registrations (trace_of faulty_plugins (Some counting_registry) (0, ''en'')) =
     [FileSelectorWindowsRegisterWithRegistrar,
      FlutterSecureStorageWindowsPluginRegisterWithRegistrar,
      FlutterTimezonePluginCApiRegisterWithRegistrar] \<and>
   registrations (trace_of faulty_plugins (Some counting_registry) (0, ''en'')) \<noteq>
     [FileSelectorWindowsRegisterWithRegistrar,
      FlutterSecureStorageWindowsPluginRegisterWithRegistrar,
      FlutterTimezonePluginCApiRegisterWithRegistrar,
      MediaKitVideoPluginCApiRegisterWithRegistrar,
      PermissionHandlerWindowsPluginRegisterWithRegistrar,
      SimpleAnimationProgressBarPluginCApiRegisterWithRegistrar,
      UrlLauncherWindowsRegisterWithRegistrar,
      VolumeControllerPluginCApiRegisterWithRegistrar] \<and>
   registrations (trace_of counting_plugins None (0, ''en'')) = []"
  by (simp add: faulty_trace trace_of_null)

theorem RegisterPlugins_registration_order_witness:
  "\<not> all_return counting_plugins picky_registry \<and>
   Some picky_registry \<noteq> None \<and>
   list_all (\<lambda>ev. raised ev = None) (trace_of counting_plugins (Some picky_registry) (0, ''en'')) \<and>
   fst (RegisterPlugins counting_plugins (Some picky_registry) (0, ''en'')) = Inr () \<and>
   registrations (trace_of counting_plugins (Some picky_registry) (0, ''en'')) =
     [FileSelectorWindowsRegisterWithRegistrar,
      FlutterSecureStorageWindowsPluginRegisterWithRegistrar,
      FlutterTimezonePluginCApiRegisterWithRegistrar,
      MediaKitVideoPluginCApiRegisterWithRegistrar,
      PermissionHandlerWindowsPluginRegisterWithRegistrar,
      SimpleAnimationProgressBarPluginCApiRegisterWithRegistrar,
      UrlLauncherWindowsRegisterWithRegistrar,
      VolumeControllerPluginCApiRegisterWithRegistrar]"
  using RegisterPlugins_registration_order [of counting_plugins "Some picky_registry" "(0, ''en'')"]
        picky_returned picky_not_all_return
  by simp

text \<open>
  C2. The argument of each plugin's entry point is exactly the handle that
  GetRegistrarForPlugin returned for that plugin's name. On every run, whatever the
  registry pointer and whatever the external calls do, the log is forwarded: every
  call of an entry point comes directly after the lookup of its own plugin's name,
  that lookup returned a handle, and the entry point is called on that very handle;
  so no handle is kept back, handed to another plugin or used twice. With a registry
  object every entry of the log is honest (its answer is the one the external function
  gave in the state it was called in). When the registry is an object and no call
  made in the run raises, the log is the eight lookups in order, each followed at once
  by the call of the matching entry point on the handle the lookup returned (the same
  \<open>h\<close> in both entries). And the handles are opaque to RegisterPlugins: on a host
  whose handles are renamed by any \<open>f\<close>, the run ends with the same result in the
  same state.
\<close>

theorem RegisterPlugins_forwards_handles:
  "forwarded (map call (trace_of plugins registry w)) \<and>
   (registry = Some r \<longrightarrow> list_all (honest plugins r) (trace_of plugins registry w)) \<and>
   (registry \<noteq> None \<and> list_all (\<lambda>ev. raised ev = None) (trace_of plugins registry w) \<longrightarrow>
      (\<exists>h1 h2 h3 h4 h5 h6 h7 h8.
         map call (trace_of plugins registry w) =
      [GetRegistrarForPlugin_call ''FileSelectorWindows'' (Inr h1),
       RegisterWithRegistrar_call FileSelectorWindowsRegisterWithRegistrar h1 (Inr ()),
       GetRegistrarForPlugin_call ''FlutterSecureStorageWindowsPlugin'' (Inr h2),
       RegisterWithRegistrar_call FlutterSecureStorageWindowsPluginRegisterWithRegistrar h2 (Inr ()),
       GetRegistrarForPlugin_call ''FlutterTimezonePluginCApi'' (Inr h3),
       RegisterWithRegistrar_call FlutterTimezonePluginCApiRegisterWithRegistrar h3 (Inr ()),
       GetRegistrarForPlugin_call ''MediaKitVideoPluginCApi'' (Inr h4),
       RegisterWithRegistrar_call MediaKitVideoPluginCApiRegisterWithRegistrar h4 (Inr ()),
       GetRegistrarForPlugin_call ''PermissionHandlerWindowsPlugin'' (Inr h5),
       RegisterWithRegistrar_call PermissionHandlerWindowsPluginRegisterWithRegistrar h5 (Inr ()),
       GetRegistrarForPlugin_call ''SimpleAnimationProgressBarPluginCApi'' (Inr h6),
       RegisterWithRegistrar_call SimpleAnimationProgressBarPluginCApiRegisterWithRegistrar h6 (Inr ()),
       GetRegistrarForPlugin_call ''UrlLauncherWindows'' (Inr h7),
       RegisterWithRegistrar_call UrlLauncherWindowsRegisterWithRegistrar h7 (Inr ()),
       GetRegistrarForPlugin_call ''VolumeControllerPluginCApi'' (Inr h8),
       RegisterWithRegistrar_call VolumeControllerPluginCApiRegisterWithRegistrar h8 (Inr ())])) \<and>
   (\<forall>f plugins' r'. registry = Some r \<and> relabelled f plugins r plugins' r' \<longrightarrow>
      RegisterPlugins plugins' (Some r') w = RegisterPlugins plugins registry w)"
proof (intro conjI impI allI)
  show "forwarded (map call (trace_of plugins registry w))"
    by (rule trace_forwarded)
next
  assume "registry = Some r"
  then show "list_all (honest plugins r) (trace_of plugins registry w)"
    by (simp add: trace_of_observe observe_always)
next
  assume "registry \<noteq> None \<and> list_all (\<lambda>ev. raised ev = None) (trace_of plugins registry w)"
  then have nonnull: "registry \<noteq> None"
    and returned: "list_all (\<lambda>ev. raised ev = None) (trace_of plugins registry w)"
    by simp_all
  from trace_calls_returned(6) [OF nonnull returned] obtain hs where
    len: "length hs = length registrant_table" and
    calls: "map call (trace_of plugins registry w) = concat (map2 statement_calls registrant_table hs)"
    by blast
  from len obtain h1 h2 h3 h4 h5 h6 h7 h8 where "hs = [h1, h2, h3, h4, h5, h6, h7, h8]"
    by (rule eight_handles)
  with calls show "\<exists>h1 h2 h3 h4 h5 h6 h7 h8.
         map call (trace_of plugins registry w) =
      [GetRegistrarForPlugin_call ''FileSelectorWindows'' (Inr h1),
       RegisterWithRegistrar_call FileSelectorWindowsRegisterWithRegistrar h1 (Inr ()),
       GetRegistrarForPlugin_call ''FlutterSecureStorageWindowsPlugin'' (Inr h2),
       RegisterWithRegistrar_call FlutterSecureStorageWindowsPluginRegisterWithRegistrar h2 (Inr ()),
       GetRegistrarForPlugin_call ''FlutterTimezonePluginCApi'' (Inr h3),
       RegisterWithRegistrar_call FlutterTimezonePluginCApiRegisterWithRegistrar h3 (Inr ()),
       GetRegistrarForPlugin_call ''MediaKitVideoPluginCApi'' (Inr h4),
       RegisterWithRegistrar_call MediaKitVideoPluginCApiRegisterWithRegistrar h4 (Inr ()),
       GetRegistrarForPlugin_call ''PermissionHandlerWindowsPlugin'' (Inr h5),
       RegisterWithRegistrar_call PermissionHandlerWindowsPluginRegisterWithRegistrar h5 (Inr ()),
       GetRegistrarForPlugin_call ''SimpleAnimationProgressBarPluginCApi'' (Inr h6),
       RegisterWithRegistrar_call SimpleAnimationProgressBarPluginCApiRegisterWithRegistrar h6 (Inr ()),
       GetRegistrarForPlugin_call ''UrlLauncherWindows'' (Inr h7),
       RegisterWithRegistrar_call UrlLauncherWindowsRegisterWithRegistrar h7 (Inr ()),
       GetRegistrarForPlugin_call ''VolumeControllerPluginCApi'' (Inr h8),
       RegisterWithRegistrar_call VolumeControllerPluginCApiRegisterWithRegistrar h8 (Inr ())]"
    by (simp add: registrant_table_def statement_calls_def)
next
  fix f :: "'a \<Rightarrow> 'd" and plugins' r'
  assume "registry = Some r \<and> relabelled f plugins r plugins' r'"
  then have r: "registry = Some r" and "relabelled f plugins r plugins' r'"
    by simp_all
  from this(2) have "register_all plugins' (Some r') registrant_table w =
      register_all plugins (Some r) registrant_table w"
    by (rule register_all_relabel)
  then show "RegisterPlugins plugins' (Some r') w = RegisterPlugins plugins registry w"
    by (simp only: r RegisterPlugins_table)
qed

theorem RegisterPlugins_forwards_handles_witness:
  "list_all (\<lambda>ev. raised ev = None) (trace_of counting_plugins (Some picky_registry) (0, ''en'')) \<and>
   relabelled (\<lambda>h. h + 100) counting_plugins counting_registry counting_plugins shifted_registry \<and>
   forwarded (map call (trace_of faulty_plugins (Some counting_registry) (0, ''en''))) \<and>
   list_all (honest counting_plugins picky_registry)
     (trace_of counting_plugins (Some picky_registry) (0, ''en'')) \<and>
   map call (trace_of counting_plugins (Some picky_registry) (0, ''en'')) =
      [GetRegistrarForPlugin_call ''FileSelectorWindows'' (Inr 19),
       RegisterWithRegistrar_call FileSelectorWindowsRegisterWithRegistrar 19 (Inr ()),
       GetRegistrarForPlugin_call ''FlutterSecureStorageWindowsPlugin'' (Inr 35),
       RegisterWithRegistrar_call FlutterSecureStorageWindowsPluginRegisterWithRegistrar 35 (Inr ()),
       GetRegistrarForPlugin_call ''FlutterTimezonePluginCApi'' (Inr 29),
       RegisterWithRegistrar_call FlutterTimezonePluginCApiRegisterWithRegistrar 29 (Inr ()),
       GetRegistrarForPlugin_call ''MediaKitVideoPluginCApi'' (Inr 29),
       RegisterWithRegistrar_call MediaKitVideoPluginCApiRegisterWithRegistrar 29 (Inr ()),
       GetRegistrarForPlugin_call ''PermissionHandlerWindowsPlugin'' (Inr 38),
       RegisterWithRegistrar_call PermissionHandlerWindowsPluginRegisterWithRegistrar 38 (Inr ()),
       GetRegistrarForPlugin_call ''SimpleAnimationProgressBarPluginCApi'' (Inr 46),
       RegisterWithRegistrar_call SimpleAnimationProgressBarPluginCApiRegisterWithRegistrar 46 (Inr ()),
       GetRegistrarForPlugin_call ''UrlLauncherWindows'' (Inr 30),
       RegisterWithRegistrar_call UrlLauncherWindowsRegisterWithRegistrar 30 (Inr ()),
       GetRegistrarForPlugin_call ''VolumeControllerPluginCApi'' (Inr 40),
       RegisterWithRegistrar_call VolumeControllerPluginCApiRegisterWithRegistrar 40 (Inr ())] \<and>
   RegisterPlugins counting_plugins (Some shifted_registry) (0, ''en'') = (Inr (), (16, ''en''))"
proof -
  note picky = RegisterPlugins_forwards_handles
    [of counting_plugins "Some picky_registry" "(0, ''en'')" picky_registry]
  note faulty = RegisterPlugins_forwards_handles
    [of faulty_plugins "Some counting_registry" "(0, ''en'')" counting_registry]
  note counting = RegisterPlugins_forwards_handles
    [of counting_plugins "Some counting_registry" "(0, ''en'')" counting_registry]
  from faulty have "forwarded (map call (trace_of faulty_plugins (Some counting_registry) (0, ''en'')))"
    by (rule conjunct1)
  moreover from picky have
    "list_all (honest counting_plugins picky_registry)
       (trace_of counting_plugins (Some picky_registry) (0, ''en''))"
    by (elim conjE) simp
  moreover from counting shifted_relabelled have
    "RegisterPlugins counting_plugins (Some shifted_registry) (0, ''en'') =
     RegisterPlugins counting_plugins (Some counting_registry) (0, ''en'')"
    by blast
  ultimately show ?thesis
    using picky_returned shifted_relabelled picky_trace counting_run by simp
qed

text \<open>
  C3 (amended). Within one run no plugin name is looked up twice and no entry point
  is called twice, whatever the external calls do, and this holds at every point of
  the run (for the first \<open>k\<close> calls, for every \<open>k\<close>): every entry point is called at
  most once. The calls are made one after the other: each starts in the state the one
  before it left, and the run ends in the state the last one left. Each of the eight
  entry points is called exactly once, and each of the eight names looked up exactly
  once, on every run that returns normally, and on every run with a registry object
  in which no call made raises. As stated for every run the claim does not hold: on a
  run that ends at a failure the entry points not yet reached are not called at all.
\<close>

theorem RegisterPlugins_each_once:
  "(\<forall>k. distinct (lookup_names (take k (trace_of plugins registry w))) \<and>
        distinct (registrations (take k (trace_of plugins registry w)))) \<and>
   distinct (lookup_names (trace_of plugins registry w)) \<and>
   distinct (registrations (trace_of plugins registry w)) \<and>
   (\<forall>p. count_list (registrations (trace_of plugins registry w)) p \<le> 1) \<and>
   chained w (trace_of plugins registry w) (snd (RegisterPlugins plugins registry w)) \<and>
   (fst (RegisterPlugins plugins registry w) = Inr () \<or>
    registry \<noteq> None \<and> list_all (\<lambda>ev. raised ev = None) (trace_of plugins registry w) \<longrightarrow>
      (\<forall>p. count_list (registrations (trace_of plugins registry w)) p = 1) \<and>
      list_all (\<lambda>name. count_list (lookup_names (trace_of plugins registry w)) name = 1)
     [''FileSelectorWindows'', ''FlutterSecureStorageWindowsPlugin'',
      ''FlutterTimezonePluginCApi'', ''MediaKitVideoPluginCApi'',
      ''PermissionHandlerWindowsPlugin'', ''SimpleAnimationProgressBarPluginCApi'',
      ''UrlLauncherWindows'', ''VolumeControllerPluginCApi''])"
proof (intro conjI impI allI)
  fix k
  show "distinct (lookup_names (take k (trace_of plugins registry w)))"
    by (rule trace_distinct_so_far)
  show "distinct (registrations (take k (trace_of plugins registry w)))"
    by (rule trace_distinct_so_far)
next
  show "distinct (lookup_names (trace_of plugins registry w))"
    by (rule trace_distinct)
  show "distinct (registrations (trace_of plugins registry w))"
    by (rule trace_distinct)
  show "chained w (trace_of plugins registry w) (snd (RegisterPlugins plugins registry w))"
    by (rule trace_chained)
next
  fix p
  show "count_list (registrations (trace_of plugins registry w)) p \<le> 1"
    using trace_distinct(2) by (rule distinct_count_le_1)
next
  fix p
  assume "fst (RegisterPlugins plugins registry w) = Inr () \<or>
    registry \<noteq> None \<and> list_all (\<lambda>ev. raised ev = None) (trace_of plugins registry w)"
  then have "registry \<noteq> None" "list_all (\<lambda>ev. raised ev = None) (trace_of plugins registry w)"
    using normal_return [of plugins registry w] by blast+
  then have "registrations (trace_of plugins registry w) = map fst registrant_table"
    by (rule trace_calls_returned)
  then show "count_list (registrations (trace_of plugins registry w)) p = 1"
    by (cases p) (simp_all add: table_entry_points)
next
  assume "fst (RegisterPlugins plugins registry w) = Inr () \<or>
    registry \<noteq> None \<and> list_all (\<lambda>ev. raised ev = None) (trace_of plugins registry w)"
  then have "registry \<noteq> None" "list_all (\<lambda>ev. raised ev = None) (trace_of plugins registry w)"
    using normal_return [of plugins registry w] by blast+
  then have "lookup_names (trace_of plugins registry w) = map snd registrant_table"
    by (rule trace_calls_returned)
  then show "list_all (\<lambda>name. count_list (lookup_names (trace_of plugins registry w)) name = 1)
     [''FileSelectorWindows'', ''FlutterSecureStorageWindowsPlugin'',
      ''FlutterTimezonePluginCApi'', ''MediaKitVideoPluginCApi'',
      ''PermissionHandlerWindowsPlugin'', ''SimpleAnimationProgressBarPluginCApi'',
      ''UrlLauncherWindows'', ''VolumeControllerPluginCApi'']"
    by (simp add: table_names)
qed

theorem RegisterPlugins_each_once_counterexample:
  "count_list (registrations (trace_of faulty_plugins (Some counting_registry) (0, ''en'')))
     VolumeControllerPluginCApiRegisterWithRegistrar = 0 \<and>
   count_list (lookup_names (trace_of faulty_plugins (Some counting_registry) (0, ''en'')))
     ''VolumeControllerPluginCApi'' = 0"
  by (simp add: faulty_trace)

theorem RegisterPlugins_each_once_witness:
  "list_all (\<lambda>ev. raised ev = None) (trace_of counting_plugins (Some picky_registry) (0, ''en'')) \<and>
   count_list (registrations (trace_of counting_plugins (Some picky_registry) (0, ''en'')))
     FlutterTimezonePluginCApiRegisterWithRegistrar = 1 \<and>
   count_list (lookup_names (trace_of counting_plugins (Some picky_registry) (0, ''en'')))
     ''FlutterTimezonePluginCApi'' = 1 \<and>
   distinct (lookup_names (trace_of faulty_plugins (Some counting_registry) (0, ''en''))) \<and>
   chained (0, ''en'') (trace_of faulty_plugins (Some counting_registry) (0, ''en'')) (6, ''en'')"
  using RegisterPlugins_each_once [of counting_plugins "Some picky_registry" "(0, ''en'')"]
        RegisterPlugins_each_once [of faulty_plugins "Some counting_registry" "(0, ''en'')"]
        picky_returned faulty_run
  by simp

text \<open>
  C4. RegisterPlugins surfaces and handles no error of its own. Its result is the unit
  value or a failure; it reads no answer of an external call. With a registry object,
  a run makes at least one call, only the last call of a run can have raised, and the
  result is decided by that last call alone: the failure it raised, unchanged, or a
  normal return when it raised none. The state handed back is the state the last call
  left: after a failure RegisterPlugins calls nothing more and changes nothing.
\<close>

theorem RegisterPlugins_failure_propagates:
  "trace_of plugins (Some r) w \<noteq> [] \<and>
   list_all (\<lambda>ev. raised ev = None) (butlast (trace_of plugins (Some r) w)) \<and>
   fst (RegisterPlugins plugins (Some r) w) =
     (case raised (last (trace_of plugins (Some r) w)) of
        Some e \<Rightarrow> Inl (Thrown e)
      | None \<Rightarrow> Inr ()) \<and>
   snd (RegisterPlugins plugins (Some r) w) = after (last (trace_of plugins (Some r) w))"
proof -
  have "registrant_table \<noteq> []" by (simp add: registrant_table_def)
  with observe_failure [of plugins r registrant_table w] show ?thesis
    by (simp add: trace_of_observe RegisterPlugins_observe)
qed

theorem RegisterPlugins_failure_propagates_witness:
  "raised (last (trace_of faulty_plugins (Some counting_registry) (0, ''en''))) = Some ''no time zone'' \<and>
   length (trace_of faulty_plugins (Some counting_registry) (0, ''en'')) = 6 \<and>
   fst (RegisterPlugins faulty_plugins (Some counting_registry) (0, ''en'')) =
     Inl (Thrown ''no time zone'') \<and>
   snd (RegisterPlugins faulty_plugins (Some counting_registry) (0, ''en'')) = (6, ''en'')"
  using RegisterPlugins_failure_propagates [of faulty_plugins counting_registry "(0, ''en'')"]
  by (simp add: faulty_trace)

text \<open>
  C5 (amended). The names looked up are fixed constants. On every run, for every
  registry argument, the names looked up are an initial segment of the same eight
  constant strings. So any two runs, on any two hosts (two registries, two sets of
  plugins, two starting states, even of different types), agree on every lookup that
  both make: one sequence is an initial segment of the other, and the two are the
  same sequence when they are of the same length. A run that returns normally, or
  that has a registry object and no call that raises, looks up exactly the eight
  constants, so two such runs issue the same sequence. Nothing the registry answers
  decides which name is looked up; the host decides only, by the first call that
  fails, how far a run gets. As stated for any two registry arguments the claim does
  not hold: a run that ends at a failure issues a shorter sequence.
\<close>

theorem RegisterPlugins_names_fixed:
  "prefix (lookup_names (trace_of plugins1 registry1 w1))
     [''FileSelectorWindows'', ''FlutterSecureStorageWindowsPlugin'',
      ''FlutterTimezonePluginCApi'', ''MediaKitVideoPluginCApi'',
      ''PermissionHandlerWindowsPlugin'', ''SimpleAnimationProgressBarPluginCApi'',
      ''UrlLauncherWindows'', ''VolumeControllerPluginCApi''] \<and>
   prefix (lookup_names (trace_of plugins2 registry2 w2))
     [''FileSelectorWindows'', ''FlutterSecureStorageWindowsPlugin'',
      ''FlutterTimezonePluginCApi'', ''MediaKitVideoPluginCApi'',
      ''PermissionHandlerWindowsPlugin'', ''SimpleAnimationProgressBarPluginCApi'',
      ''UrlLauncherWindows'', ''VolumeControllerPluginCApi''] \<and>
   (prefix (lookup_names (trace_of plugins1 registry1 w1)) (lookup_names (trace_of plugins2 registry2 w2)) \<or>
    prefix (lookup_names (trace_of plugins2 registry2 w2)) (lookup_names (trace_of plugins1 registry1 w1))) \<and>
   (length (lookup_names (trace_of plugins1 registry1 w1)) =
    length (lookup_names (trace_of plugins2 registry2 w2)) \<longrightarrow>
      lookup_names (trace_of plugins1 registry1 w1) = lookup_names (trace_of plugins2 registry2 w2)) \<and>
   (fst (RegisterPlugins plugins1 registry1 w1) = Inr () \<or>
    registry1 \<noteq> None \<and> list_all (\<lambda>ev. raised ev = None) (trace_of plugins1 registry1 w1) \<longrightarrow>
      lookup_names (trace_of plugins1 registry1 w1) =
     [''FileSelectorWindows'', ''FlutterSecureStorageWindowsPlugin'',
      ''FlutterTimezonePluginCApi'', ''MediaKitVideoPluginCApi'',
      ''PermissionHandlerWindowsPlugin'', ''SimpleAnimationProgressBarPluginCApi'',
      ''UrlLauncherWindows'', ''VolumeControllerPluginCApi'']) \<and>
   (fst (RegisterPlugins plugins1 registry1 w1) = Inr () \<and>
    fst (RegisterPlugins plugins2 registry2 w2) = Inr () \<longrightarrow>
      lookup_names (trace_of plugins2 registry2 w2) = lookup_names (trace_of plugins1 registry1 w1))"
proof -
  let ?n1 = "lookup_names (trace_of plugins1 registry1 w1)"
  let ?n2 = "lookup_names (trace_of plugins2 registry2 w2)"
  have p1: "prefix ?n1 (map snd registrant_table)"
    using trace_prefix [of plugins1 registry1 w1] by (rule conjunct1)
  have p2: "prefix ?n2 (map snd registrant_table)"
    using trace_prefix [of plugins2 registry2 w2] by (rule conjunct1)
  have comparable: "prefix ?n1 ?n2 \<or> prefix ?n2 ?n1"
    using p1 p2 by (rule prefix_same_cases)
  have same: "?n1 = ?n2" if "length ?n1 = length ?n2"
    using p1 p2 that by (rule prefix_same_length)
  have full1: "?n1 = map snd registrant_table"
    if "fst (RegisterPlugins plugins1 registry1 w1) = Inr () \<or>
        registry1 \<noteq> None \<and> list_all (\<lambda>ev. raised ev = None) (trace_of plugins1 registry1 w1)"
  proof -
    from that have "registry1 \<noteq> None" "list_all (\<lambda>ev. raised ev = None) (trace_of plugins1 registry1 w1)"
      using normal_return [of plugins1 registry1 w1] by blast+
    then show ?thesis by (rule trace_calls_returned)
  qed
  have full2: "?n2 = map snd registrant_table"
    if "fst (RegisterPlugins plugins2 registry2 w2) = Inr ()"
  proof -
    from that have "registry2 \<noteq> None" "list_all (\<lambda>ev. raised ev = None) (trace_of plugins2 registry2 w2)"
      using normal_return [of plugins2 registry2 w2] by blast+
    then show ?thesis by (rule trace_calls_returned)
  qed
  from p1 p2 comparable same full1 full2 show ?thesis
    unfolding table_names by auto
qed

theorem RegisterPlugins_names_fixed_counterexample:
  "lookup_names (trace_of faulty_plugins (Some counting_registry) (0, ''en'')) =
     [''FileSelectorWindows'', ''FlutterSecureStorageWindowsPlugin'',
      ''FlutterTimezonePluginCApi''] \<and>
   lookup_names (trace_of counting_plugins (Some picky_registry) (0, ''en'')) =
     [''FileSelectorWindows'', ''FlutterSecureStorageWindowsPlugin'',
      ''FlutterTimezonePluginCApi'', ''MediaKitVideoPluginCApi'',
      ''PermissionHandlerWindowsPlugin'', ''SimpleAnimationProgressBarPluginCApi'',
      ''UrlLauncherWindows'', ''VolumeControllerPluginCApi''] \<and>
   lookup_names (trace_of faulty_plugins (Some counting_registry) (0, ''en'')) \<noteq>
   lookup_names (trace_of counting_plugins (Some picky_registry) (0, ''en''))"
proof -
  have "lookup_names (trace_of faulty_plugins (Some counting_registry) (0, ''en'')) =
     [''FileSelectorWindows'', ''FlutterSecureStorageWindowsPlugin'',
      ''FlutterTimezonePluginCApi'']"
    by (simp add: faulty_trace)
  moreover have "lookup_names (trace_of counting_plugins (Some picky_registry) (0, ''en'')) =
     [''FileSelectorWindows'', ''FlutterSecureStorageWindowsPlugin'',
      ''FlutterTimezonePluginCApi'', ''MediaKitVideoPluginCApi'',
      ''PermissionHandlerWindowsPlugin'', ''SimpleAnimationProgressBarPluginCApi'',
      ''UrlLauncherWindows'', ''VolumeControllerPluginCApi'']"
    using trace_calls_returned(2) [OF _ picky_returned] by (simp add: table_names)
  ultimately show ?thesis by simp
qed

theorem RegisterPlugins_names_fixed_witness:
  "list_all (\<lambda>ev. raised ev = None) (trace_of counting_plugins (Some picky_registry) (0, ''en'')) \<and>
   fst (RegisterPlugins silent_plugins (Some silent_registry) ()) = Inr () \<and>
   lookup_names (trace_of silent_plugins (Some silent_registry) ()) =
     lookup_names (trace_of counting_plugins (Some picky_registry) (0, ''en'')) \<and>
   lookup_names (trace_of counting_plugins (Some picky_registry) (0, ''en'')) =
     [''FileSelectorWindows'', ''FlutterSecureStorageWindowsPlugin'',
      ''FlutterTimezonePluginCApi'', ''MediaKitVideoPluginCApi'',
      ''PermissionHandlerWindowsPlugin'', ''SimpleAnimationProgressBarPluginCApi'',
      ''UrlLauncherWindows'', ''VolumeControllerPluginCApi'']"
proof -
  have silent: "fst (RegisterPlugins silent_plugins (Some silent_registry) ()) = Inr ()"
    using silent_all_return by (rule RegisterPlugins_returns)
  have picky: "fst (RegisterPlugins counting_plugins (Some picky_registry) (0, ''en'')) = Inr ()"
    using trace_calls_returned(1) [OF _ picky_returned] by simp
  from RegisterPlugins_names_fixed
         [of counting_plugins "Some picky_registry" "(0, ''en'')"
             silent_plugins "Some silent_registry" "()"]
       silent picky picky_returned
  show ?thesis by simp
qed

text \<open>
  C6. RegisterPlugins has no state of its own and changes none: whatever part \<open>f\<close> of
  the host state every external call leaves as it was, a call of RegisterPlugins
  leaves as it was, with any registry pointer and whether or not the run fails.
\<close>

theorem RegisterPlugins_frame:
  assumes "\<And>r name w'. registry = Some r \<Longrightarrow> f (snd (GetRegistrarForPlugin r name w')) = f w'"
    and "\<And>p h w'. f (snd (plugins p h w')) = f w'"
  shows "f (snd (RegisterPlugins plugins registry w)) = f w"
proof (cases registry)
  case None
  then show ?thesis by (simp add: RegisterPlugins_null)
next
  case (Some r)
  with assms(1) have "\<And>name w'. f (snd (GetRegistrarForPlugin r name w')) = f w'" by simp
  from observe_frame [of f r plugins, OF this assms(2)] Some show ?thesis
    by (simp add: RegisterPlugins_observe)
qed

theorem RegisterPlugins_frame_witness:
  "(\<forall>name w'. snd (snd (GetRegistrarForPlugin counting_registry name w')) = snd w') \<and>
   (\<forall>p h w'. snd (snd (faulty_plugins p h w')) = snd w') \<and>
   snd (snd (RegisterPlugins faulty_plugins (Some counting_registry) (0, ''en''))) = ''en'' \<and>
   fst (snd (RegisterPlugins faulty_plugins (Some counting_registry) (0, ''en''))) = 6"
proof -
  have lookup: "snd (snd (GetRegistrarForPlugin counting_registry name w')) = snd w'" for name w'
    by (simp add: counting_registry_def split: prod.splits)
  have reg: "snd (snd (faulty_plugins p h w')) = snd w'" for p h w'
    by (simp add: faulty_plugins_def split: prod.splits)
  have "snd (snd (RegisterPlugins faulty_plugins (Some counting_registry) (0, ''en''))) = snd (0::nat, ''en'')"
    by (rule RegisterPlugins_frame) (simp_all add: lookup reg)
  with lookup reg show ?thesis by (simp add: faulty_run)
qed

text \<open>
  C7. The names passed to GetRegistrarForPlugin within one run are pairwise distinct
  and in strictly increasing lexicographic order (characters compared by their codes),
  on every run; when the registry is an object and every external call returns they are
  the eight names of the source.
\<close>

theorem RegisterPlugins_names_increasing:
  "sorted_wrt (<) (lookup_names (trace_of plugins registry w)) \<and>
   distinct (lookup_names (trace_of plugins registry w)) \<and>
   (registry = Some r \<and> all_return plugins r \<longrightarrow>
      lookup_names (trace_of plugins registry w) =
     [''FileSelectorWindows'', ''FlutterSecureStorageWindowsPlugin'',
      ''FlutterTimezonePluginCApi'', ''MediaKitVideoPluginCApi'',
      ''PermissionHandlerWindowsPlugin'', ''SimpleAnimationProgressBarPluginCApi'',
      ''UrlLauncherWindows'', ''VolumeControllerPluginCApi''])"
proof (intro conjI impI)
  have "prefix (lookup_names (trace_of plugins registry w)) (map snd registrant_table)"
    using trace_prefix [of plugins registry w] by (rule conjunct1)
  then show "sorted_wrt (<) (lookup_names (trace_of plugins registry w))"
    using names_lt by (rule prefix_sorted_wrt)
  show "distinct (lookup_names (trace_of plugins registry w))"
    by (rule trace_distinct)
next
  assume "registry = Some r \<and> all_return plugins r"
  then show "lookup_names (trace_of plugins registry w) =
     [''FileSelectorWindows'', ''FlutterSecureStorageWindowsPlugin'',
      ''FlutterTimezonePluginCApi'', ''MediaKitVideoPluginCApi'',
      ''PermissionHandlerWindowsPlugin'', ''SimpleAnimationProgressBarPluginCApi'',
      ''UrlLauncherWindows'', ''VolumeControllerPluginCApi'']"
    by (simp add: trace_full table_names)
qed

theorem RegisterPlugins_names_increasing_witness:
  "all_return counting_plugins counting_registry \<and>
   lookup_names (trace_of counting_plugins (Some counting_registry) (0, ''en'')) =
     [''FileSelectorWindows'', ''FlutterSecureStorageWindowsPlugin'',
      ''FlutterTimezonePluginCApi'', ''MediaKitVideoPluginCApi'',
      ''PermissionHandlerWindowsPlugin'', ''SimpleAnimationProgressBarPluginCApi'',
      ''UrlLauncherWindows'', ''VolumeControllerPluginCApi''] \<and>
   sorted_wrt (<) (lookup_names (trace_of counting_plugins (Some counting_registry) (0, ''en''))) \<and>
   ''FileSelectorWindows'' < ''FlutterSecureStorageWindowsPlugin'' \<and>
   \<not> ''FlutterTimezonePluginCApi'' < ''FlutterSecureStorageWindowsPlugin''"
  using RegisterPlugins_names_increasing
          [of counting_plugins "Some counting_registry" "(0, ''en'')" counting_registry]
        counting_all_return
  by simp

text \<open>
  C8 (amended). RegisterPlugins is a total function with no loop or recursion in its
  definition, and no run makes more than sixteen external calls. For every non-null
  registry argument, when each external call made in the run returns, RegisterPlugins
  returns normally after exactly sixteen external calls: eight lookups and eight
  registrations, in pairs of a lookup followed at once by the registration call that
  is given the handle the lookup returned. Conversely a run that returns normally has
  a registry object, no call that raised, and sixteen calls. As stated for every
  registry argument the claim does not hold: on a null registry the first dereference
  fails before any call is made.
\<close>

theorem RegisterPlugins_sixteen_calls:
  "length (trace_of plugins registry w) \<le> 16 \<and>
   (registry \<noteq> None \<and> list_all (\<lambda>ev. raised ev = None) (trace_of plugins registry w) \<longrightarrow>
      fst (RegisterPlugins plugins registry w) = Inr () \<and>
      length (trace_of plugins registry w) = 16 \<and>
      length (lookup_names (trace_of plugins registry w)) = 8 \<and>
      length (registrations (trace_of plugins registry w)) = 8 \<and>
      lookup_then_register (map call (trace_of plugins registry w))) \<and>
   (fst (RegisterPlugins plugins registry w) = Inr () \<longrightarrow>
      registry \<noteq> None \<and>
      list_all (\<lambda>ev. raised ev = None) (trace_of plugins registry w) \<and>
      length (trace_of plugins registry w) = 16)"
proof (intro conjI impI)
  show "length (trace_of plugins registry w) \<le> 16"
    by (rule trace_forwarded)
next
  assume "registry \<noteq> None \<and> list_all (\<lambda>ev. raised ev = None) (trace_of plugins registry w)"
  then have "registry \<noteq> None"
    and "list_all (\<lambda>ev. raised ev = None) (trace_of plugins registry w)"
    by simp_all
  note run = trace_calls_returned [OF this]
  from run(1) show "fst (RegisterPlugins plugins registry w) = Inr ()" .
  from run(5) show "length (trace_of plugins registry w) = 16" .
  from run(2) show "length (lookup_names (trace_of plugins registry w)) = 8"
    by (simp add: registrant_table_def)
  from run(3) show "length (registrations (trace_of plugins registry w)) = 8"
    by (simp add: registrant_table_def)
  from run(4) show "lookup_then_register (map call (trace_of plugins registry w))" .
next
  assume normal: "fst (RegisterPlugins plugins registry w) = Inr ()"
  then show nonnull: "registry \<noteq> None"
    by (rule normal_return)
  from normal show returned: "list_all (\<lambda>ev. raised ev = None) (trace_of plugins registry w)"
    by (rule normal_return)
  from nonnull returned show "length (trace_of plugins registry w) = 16"
    by (rule trace_calls_returned)
qed

theorem RegisterPlugins_sixteen_calls_counterexample:
  "trace_of counting_plugins None (0, ''en'') = [] \<and>
   length (trace_of counting_plugins None (0, ''en'')) \<noteq> 16 \<and>
   RegisterPlugins counting_plugins None (0, ''en'') = (Inl NullDereference, (0, ''en''))"
  by (simp add: trace_of_null RegisterPlugins_null)

theorem RegisterPlugins_sixteen_calls_witness:
  "\<not> all_return counting_plugins picky_registry \<and>
   Some picky_registry \<noteq> None \<and>
   list_all (\<lambda>ev. raised ev = None) (trace_of counting_plugins (Some picky_registry) (0, ''en'')) \<and>
   fst (RegisterPlugins counting_plugins (Some picky_registry) (0, ''en'')) = Inr () \<and>
   length (trace_of counting_plugins (Some picky_registry) (0, ''en'')) = 16 \<and>
   lookup_then_register (map call (trace_of counting_plugins (Some picky_registry) (0, ''en'')))"
  using RegisterPlugins_sixteen_calls [of counting_plugins "Some picky_registry" "(0, ''en'')"]
        picky_returned picky_not_all_return
  by simp

text \<open>
  C9. The registry pointer is dereferenced with no null check: called on a null
  pointer, RegisterPlugins fails at the first dereference, before any external call
  and with the state untouched. With a registry object that failure cannot happen:
  the run returns normally or ends with a failure that its last external call raised.
  When moreover every external call returns, nothing in RegisterPlugins fails: it
  returns normally.
\<close>

theorem RegisterPlugins_null_registry:
  "RegisterPlugins plugins None w = (Inl NullDereference, w) \<and>
   trace_of plugins None w = [] \<and>
   fst (RegisterPlugins plugins (Some r) w) \<noteq> Inl NullDereference \<and>
   (fst (RegisterPlugins plugins (Some r) w) = Inr () \<or>
    (\<exists>e. fst (RegisterPlugins plugins (Some r) w) = Inl (Thrown e) \<and>
         raised (last (trace_of plugins (Some r) w)) = Some e)) \<and>
   (all_return plugins r \<longrightarrow> fst (RegisterPlugins plugins (Some r) w) = Inr ())"
proof (intro conjI impI)
  show "RegisterPlugins plugins None w = (Inl NullDereference, w)"
    by (rule RegisterPlugins_null)
  show "trace_of plugins None w = []"
    by (rule trace_of_null)
  have "registrant_table \<noteq> []" by (simp add: registrant_table_def)
  with observe_failure [of plugins r registrant_table w]
  have last_call: "fst (RegisterPlugins plugins (Some r) w) =
      (case raised (last (trace_of plugins (Some r) w)) of
         Some e \<Rightarrow> Inl (Thrown e)
       | None \<Rightarrow> Inr ())"
    by (simp add: trace_of_observe RegisterPlugins_observe)
  then show "fst (RegisterPlugins plugins (Some r) w) \<noteq> Inl NullDereference"
    by (simp split: option.splits)
  from last_call
  show "fst (RegisterPlugins plugins (Some r) w) = Inr () \<or>
    (\<exists>e. fst (RegisterPlugins plugins (Some r) w) = Inl (Thrown e) \<and>
         raised (last (trace_of plugins (Some r) w)) = Some e)"
    by (cases "raised (last (trace_of plugins (Some r) w))") simp_all
next
  assume "all_return plugins r"
  then show "fst (RegisterPlugins plugins (Some r) w) = Inr ()"
    by (rule RegisterPlugins_returns)
qed

theorem RegisterPlugins_null_registry_witness:
  "all_return counting_plugins counting_registry \<and>
   RegisterPlugins counting_plugins None (0, ''en'') = (Inl NullDereference, (0, ''en'')) \<and>
   fst (RegisterPlugins counting_plugins (Some counting_registry) (0, ''en'')) = Inr () \<and>
   fst (RegisterPlugins faulty_plugins (Some counting_registry) (0, ''en'')) \<noteq> Inl NullDereference"
  using RegisterPlugins_null_registry [of counting_plugins "(0, ''en'')" counting_registry]
        RegisterPlugins_null_registry [of faulty_plugins "(0, ''en'')" counting_registry]
        counting_all_return
  by simp

end
